theory Spec2Isabelle
  imports Main "HOL-Library.Signed_Division"
begin

section \<open>Pointers, characters and machine integers\<close>

text \<open>
  The decoder of the PRT-7 protocol (\<^verbatim>\<open>decodificador_prt7.cpp\<close>) keeps two linked structures
  on the heap. Each class allocates its own nodes with \<^verbatim>\<open>new\<close> and never hands them out, so
  the heap is split by node type: a store is the list of the nodes allocated so far, and the
  address of a node is its position in that list. A pointer is \<open>Some\<close> address, or \<open>None\<close>
  for \<^verbatim>\<open>nullptr\<close>. Dereferencing \<^verbatim>\<open>nullptr\<close> or an address outside the store is undefined
  behaviour in C++; the model makes it the error \<open>PunteroInvalido\<close>, and every function that
  dereferences returns \<open>error + result\<close>.

  \<open>valor c\<close> is the number a \<^verbatim>\<open>char\<close> is promoted to. The program compares characters
  only with ASCII constants and subtracts only inside \<open>'0'..'9'\<close> and \<open>'A'..'Z'\<close>, so
  the result is the same whether \<^verbatim>\<open>char\<close> is signed or not.
\<close>

datatype error = PunteroInvalido

type_synonym ptr = "nat option"

definition valor :: "char \<Rightarrow> int" where
  "valor c = of_char c"

section \<open>The mapping rotor: a circular doubly linked list\<close>

text \<open>
  \<^verbatim>\<open>struct NodoRotor\<close> and \<^verbatim>\<open>class RotorDeMapeo\<close>. The record of the rotor carries the store of
  its nodes next to the two fields of the class. The constructor runs over the alphabet,
  appends one node per letter, links it to the previous one and finally closes the circle.
  \<^verbatim>\<open>rotar\<close> takes \<^verbatim>\<open>n % tamanio\<close>, which in C++ truncates towards zero and keeps the sign of
  \<open>n\<close>: this is \<open>smod\<close>, not \<open>mod\<close>. The remainder of an \<^verbatim>\<open>int\<close> by 26 cannot
  overflow, so unbounded integers are exact here. The two \<^verbatim>\<open>for\<close> loops of \<^verbatim>\<open>rotar\<close> and the one
  of \<^verbatim>\<open>getMapeo\<close> follow a link a given number of times: \<open>seguir_siguiente\<close> and
  \<open>seguir_previo\<close>. \<^verbatim>\<open>getMapeo\<close> and \<^verbatim>\<open>getCabeza\<close> write nothing, so they return a value
  and no rotor.
\<close>

record NodoRotor =
  dato :: char
  siguiente :: ptr
  previo :: ptr

definition nuevo_NodoRotor :: "char \<Rightarrow> NodoRotor" where
  "nuevo_NodoRotor c = \<lparr>dato = c, siguiente = None, previo = None\<rparr>"

record RotorDeMapeo =
  nodos :: "NodoRotor list"
  cabeza :: ptr
  tamanio :: int

definition alfabeto :: string where
  "alfabeto = ''ABCDEFGHIJKLMNOPQRSTUVWXYZ''"

definition nodo :: "NodoRotor list \<Rightarrow> ptr \<Rightarrow> error + NodoRotor" where
  "nodo mem p =
     (case p of
        None \<Rightarrow> Inl PunteroInvalido
      | Some a \<Rightarrow> if a < length mem then Inr (mem ! a) else Inl PunteroInvalido)"

fun RotorDeMapeo_bucle ::
  "string \<Rightarrow> RotorDeMapeo \<Rightarrow> ptr \<Rightarrow> ptr \<Rightarrow> RotorDeMapeo \<times> ptr \<times> ptr" where
  "RotorDeMapeo_bucle [] r primero anterior = (r, primero, anterior)"
| "RotorDeMapeo_bucle (c # cs) r primero anterior =
     (let nuevo = length (nodos r);
          r1 = r\<lparr>nodos := nodos r @ [nuevo_NodoRotor c]\<rparr>;
          (r2, primero2) =
            (if primero = None then (r1\<lparr>cabeza := Some nuevo\<rparr>, Some nuevo)
             else (r1, primero));
          r3 =
            (case anterior of
               None \<Rightarrow> r2
             | Some a \<Rightarrow>
                 (let m1 = (nodos r2)[a := (nodos r2 ! a)\<lparr>siguiente := Some nuevo\<rparr>];
                      m2 = m1[nuevo := (m1 ! nuevo)\<lparr>previo := Some a\<rparr>]
                  in r2\<lparr>nodos := m2\<rparr>))
      in RotorDeMapeo_bucle cs (r3\<lparr>tamanio := tamanio r3 + 1\<rparr>) primero2 (Some nuevo))"

definition RotorDeMapeo_nuevo :: RotorDeMapeo where
  "RotorDeMapeo_nuevo =
     (case RotorDeMapeo_bucle alfabeto \<lparr>nodos = [], cabeza = None, tamanio = 0\<rparr> None None of
        (r, primero, anterior) \<Rightarrow>
          (case (anterior, primero) of
             (Some a, Some p) \<Rightarrow>
               (let m1 = (nodos r)[a := (nodos r ! a)\<lparr>siguiente := Some p\<rparr>];
                    m2 = m1[p := (m1 ! p)\<lparr>previo := Some a\<rparr>]
                in r\<lparr>nodos := m2\<rparr>)
           | _ \<Rightarrow> r))"

fun seguir_siguiente :: "NodoRotor list \<Rightarrow> nat \<Rightarrow> ptr \<Rightarrow> error + ptr" where
  "seguir_siguiente mem 0 p = Inr p"
| "seguir_siguiente mem (Suc k) p =
     (case nodo mem p of
        Inl e \<Rightarrow> Inl e
      | Inr nd \<Rightarrow> seguir_siguiente mem k (siguiente nd))"

fun seguir_previo :: "NodoRotor list \<Rightarrow> nat \<Rightarrow> ptr \<Rightarrow> error + ptr" where
  "seguir_previo mem 0 p = Inr p"
| "seguir_previo mem (Suc k) p =
     (case nodo mem p of
        Inl e \<Rightarrow> Inl e
      | Inr nd \<Rightarrow> seguir_previo mem k (previo nd))"

definition rotar :: "RotorDeMapeo \<Rightarrow> int \<Rightarrow> error + RotorDeMapeo" where
  "rotar r n =
     (if cabeza r = None \<or> tamanio r = 0 then Inr r
      else
        (let pasos = n smod tamanio r in
         if pasos > 0 then
           (case seguir_siguiente (nodos r) (nat pasos) (cabeza r) of
              Inl e \<Rightarrow> Inl e
            | Inr p \<Rightarrow> Inr (r\<lparr>cabeza := p\<rparr>))
         else if pasos < 0 then
           (case seguir_previo (nodos r) (nat (- pasos)) (cabeza r) of
              Inl e \<Rightarrow> Inl e
            | Inr p \<Rightarrow> Inr (r\<lparr>cabeza := p\<rparr>))
         else Inr r))"

definition getMapeo :: "RotorDeMapeo \<Rightarrow> char \<Rightarrow> error + char" where
  "getMapeo r c =
     (if valor c < valor CHR ''A'' \<or> valor c > valor CHR ''Z'' then Inr c
      else
        (let posicion = valor c - valor CHR ''A'' in
         case seguir_siguiente (nodos r) (nat posicion) (cabeza r) of
           Inl e \<Rightarrow> Inl e
         | Inr actual \<Rightarrow>
             (case nodo (nodos r) actual of
                Inl e \<Rightarrow> Inl e
              | Inr nd \<Rightarrow> Inr (dato nd))))"

definition getCabeza :: "RotorDeMapeo \<Rightarrow> error + char" where
  "getCabeza r =
     (case cabeza r of
        None \<Rightarrow> Inr CHR ''A''
      | Some a \<Rightarrow>
          (case nodo (nodos r) (Some a) of
             Inl e \<Rightarrow> Inl e
           | Inr nd \<Rightarrow> Inr (dato nd)))"

section \<open>The payload list: a doubly linked list of decoded characters\<close>

text \<open>
  \<^verbatim>\<open>struct NodoCarga\<close> and \<^verbatim>\<open>class ListaDeCarga\<close>, with a store of its own. The counters that
  grow with the input (\<^verbatim>\<open>tamanio\<close> here, \<^verbatim>\<open>tramasRecibidas\<close> in the loop) are 32-bit
  \<^verbatim>\<open>int\<close>s: \<open>int32\<close> is the two's complement wrap-around. The two printing loops run
  \<^verbatim>\<open>while (actual != nullptr)\<close> and end only if the chain of \<^verbatim>\<open>siguiente\<close> links does; they
  are partial functions, with \<open>None\<close> for a loop that never ends. What they print is
  appended to the text written to \<^verbatim>\<open>std::cout\<close> so far.
\<close>

record NodoCarga =
  dato :: char
  siguiente :: ptr
  previo :: ptr

definition nuevo_NodoCarga :: "char \<Rightarrow> NodoCarga" where
  "nuevo_NodoCarga c = \<lparr>dato = c, siguiente = None, previo = None\<rparr>"

record ListaDeCarga =
  nodos :: "NodoCarga list"
  cabeza :: ptr
  cola :: ptr
  tamanio :: int

definition int32 :: "int \<Rightarrow> int" where
  "int32 k = signed_take_bit 31 k"

definition ListaDeCarga_nueva :: ListaDeCarga where
  "ListaDeCarga_nueva = \<lparr>nodos = [], cabeza = None, cola = None, tamanio = 0\<rparr>"

definition insertarAlFinal :: "ListaDeCarga \<Rightarrow> char \<Rightarrow> error + ListaDeCarga" where
  "insertarAlFinal l d =
     (let nuevo = length (nodos l);
          l1 = l\<lparr>nodos := nodos l @ [nuevo_NodoCarga d]\<rparr>
      in if cabeza l1 = None then
           Inr (l1\<lparr>cabeza := Some nuevo, cola := Some nuevo, tamanio := int32 (tamanio l1 + 1)\<rparr>)
         else
           (case cola l1 of
              None \<Rightarrow> Inl PunteroInvalido
            | Some q \<Rightarrow>
                if q < length (nodos l1) then
                  (let m1 = (nodos l1)[q := (nodos l1 ! q)\<lparr>siguiente := Some nuevo\<rparr>];
                       m2 = m1[nuevo := (m1 ! nuevo)\<lparr>previo := Some q\<rparr>]
                   in Inr (l1\<lparr>nodos := m2, cola := Some nuevo, tamanio := int32 (tamanio l1 + 1)\<rparr>))
                else Inl PunteroInvalido))"

partial_function (option) imprimirMensaje_bucle ::
  "NodoCarga list \<Rightarrow> ptr \<Rightarrow> string \<Rightarrow> (error + string) option" where
  "imprimirMensaje_bucle mem actual out =
     (case actual of
        None \<Rightarrow> Some (Inr out)
      | Some a \<Rightarrow>
          if a < length mem then
            imprimirMensaje_bucle mem (siguiente (mem ! a)) (out @ [dato (mem ! a)])
          else Some (Inl PunteroInvalido))"

declare imprimirMensaje_bucle.simps [code]

definition imprimirMensaje :: "ListaDeCarga \<Rightarrow> string \<Rightarrow> (error + string) option" where
  "imprimirMensaje l out = imprimirMensaje_bucle (nodos l) (cabeza l) out"

partial_function (option) imprimirConFormato_bucle ::
  "NodoCarga list \<Rightarrow> ptr \<Rightarrow> string \<Rightarrow> (error + string) option" where
  "imprimirConFormato_bucle mem actual out =
     (case actual of
        None \<Rightarrow> Some (Inr out)
      | Some a \<Rightarrow>
          if a < length mem then
            imprimirConFormato_bucle mem (siguiente (mem ! a))
              (out @ ''['' @ [dato (mem ! a)] @ '']'')
          else Some (Inl PunteroInvalido))"

declare imprimirConFormato_bucle.simps [code]

definition imprimirConFormato :: "ListaDeCarga \<Rightarrow> string \<Rightarrow> (error + string) option" where
  "imprimirConFormato l out =
     imprimirConFormato_bucle (nodos l) (cabeza l) (out @ ''Mensaje: '')"

section \<open>Frames\<close>

text \<open>
  The subclasses \<^verbatim>\<open>TramaLoad\<close> and \<^verbatim>\<open>TramaMap\<close> of \<^verbatim>\<open>TramaBase\<close> are the constructors of a
  datatype and the virtual method \<^verbatim>\<open>procesar\<close> is one function with an equation for each.
  It returns the payload list, the rotor and the output after the call; \<open>mostrar_int\<close> is
  \<^verbatim>\<open>operator<<\<close> on an \<^verbatim>\<open>int\<close> and \<open>endl\<close> the line feed of \<^verbatim>\<open>std::endl\<close>.
\<close>

datatype TramaBase = TramaLoad char | TramaMap int

definition endl :: string where
  "endl = [CHR 0x0A]"

fun mostrar_nat :: "nat \<Rightarrow> string" where
  "mostrar_nat n =
     (if n < 10 then [char_of (48 + n)]
      else mostrar_nat (n div 10) @ [char_of (48 + n mod 10)])"

declare mostrar_nat.simps [simp del]

definition mostrar_int :: "int \<Rightarrow> string" where
  "mostrar_int k = (if k < 0 then ''-'' @ mostrar_nat (nat (- k)) else mostrar_nat (nat k))"

fun procesar ::
  "TramaBase \<Rightarrow> ListaDeCarga \<Rightarrow> RotorDeMapeo \<Rightarrow> string \<Rightarrow>
     (error + ListaDeCarga \<times> RotorDeMapeo \<times> string) option" where
  "procesar (TramaLoad caracter) carga rotor out =
     (case getMapeo rotor caracter of
        Inl e \<Rightarrow> Some (Inl e)
      | Inr decodificado \<Rightarrow>
          (case insertarAlFinal carga decodificado of
             Inl e \<Rightarrow> Some (Inl e)
           | Inr carga' \<Rightarrow>
               (let c_print = (if caracter = CHR '' '' then CHR '' '' else caracter);
                    d_print = (if decodificado = CHR '' '' then CHR '' '' else decodificado);
                    out1 = out @ ''Fragmento '' @ [CHR 0x27] @ [c_print] @ [CHR 0x27]
                             @ '' decodificado como '' @ [CHR 0x27] @ [d_print] @ [CHR 0x27] @ ''. ''
                in case imprimirConFormato carga' out1 of
                     None \<Rightarrow> None
                   | Some (Inl e) \<Rightarrow> Some (Inl e)
                   | Some (Inr out2) \<Rightarrow> Some (Inr (carga', rotor, out2 @ endl)))))"
| "procesar (TramaMap rotacion) carga rotor out =
     (case rotar rotor rotacion of
        Inl e \<Rightarrow> Some (Inl e)
      | Inr rotor' \<Rightarrow>
          (case getCabeza rotor' of
             Inl e \<Rightarrow> Some (Inl e)
           | Inr h \<Rightarrow>
               Some (Inr (carga, rotor',
                 out @ ''ROTANDO ROTOR '' @ (if rotacion \<ge> 0 then ''+'' else [])
                   @ mostrar_int rotacion @ ''. (Ahora '' @ [CHR 0x27] @ ''A'' @ [CHR 0x27]
                   @ '' se mapea a '' @ [CHR 0x27] @ [h] @ [CHR 0x27] @ '')'' @ endl))))"

section \<open>Line parser\<close>

text \<open>
  A line is held as the characters stored in the buffer before the terminator;
  \<open>cstr s i\<close> is \<^verbatim>\<open>s[i]\<close>, the terminating NUL at index \<open>length s\<close>. The reader
  delivers only non-empty lines, and on those every read of the parser at an index is
  guarded by a test that the character before it is not the terminator, so no read goes
  past index \<open>length s\<close>. \<^verbatim>\<open>aEntero\<close> accumulates in an \<^verbatim>\<open>int\<close>: an overflow there is
  undefined behaviour in C++ and wraps around on the usual targets, which is what \<open>int32\<close>
  writes out. \<^verbatim>\<open>parsearTrama\<close> returns \<^verbatim>\<open>nullptr\<close>, here \<open>None\<close>, for a malformed line.
\<close>

definition cstr :: "string \<Rightarrow> nat \<Rightarrow> char" where
  "cstr s i = (if i < length s then s ! i else CHR 0x00)"

function sonIguales_bucle :: "string \<Rightarrow> string \<Rightarrow> nat \<Rightarrow> bool" where
  "sonIguales_bucle str1 str2 i =
     (if cstr str1 i \<noteq> CHR 0x00 \<and> cstr str2 i \<noteq> CHR 0x00 then
        (if cstr str1 i \<noteq> cstr str2 i then False
         else sonIguales_bucle str1 str2 (i + 1))
      else cstr str1 i = cstr str2 i)"
  by pat_completeness auto
termination
  by (relation "measure (\<lambda>(str1, str2, i). length str1 - i)")
     (auto simp: cstr_def split: if_splits)

declare sonIguales_bucle.simps [simp del]

definition sonIguales :: "string \<Rightarrow> string \<Rightarrow> bool" where
  "sonIguales str1 str2 = sonIguales_bucle str1 str2 0"

definition es_digito :: "char \<Rightarrow> bool" where
  "es_digito c \<longleftrightarrow> valor c \<ge> valor CHR ''0'' \<and> valor c \<le> valor CHR ''9''"

function aEntero_bucle :: "string \<Rightarrow> nat \<Rightarrow> int \<Rightarrow> int" where
  "aEntero_bucle str i resultado =
     (if es_digito (cstr str i) then
        aEntero_bucle str (i + 1)
          (int32 (resultado * 10 + (valor (cstr str i) - valor CHR ''0'')))
      else resultado)"
  by pat_completeness auto
termination
  by (relation "measure (\<lambda>(str, i, resultado). length str - i)")
     (auto simp: cstr_def es_digito_def valor_def split: if_splits)

declare aEntero_bucle.simps [simp del]

definition aEntero :: "string \<Rightarrow> int" where
  "aEntero str =
     (let (signo, i) =
            (if cstr str 0 = CHR ''-'' then (- 1, 1)
             else if cstr str 0 = CHR ''+'' then (1, 1)
             else (1, 0))
      in int32 (aEntero_bucle str i 0 * signo))"

definition parsearTrama :: "string \<Rightarrow> TramaBase option" where
  "parsearTrama linea =
     (let tipo = cstr linea 0 in
      if cstr linea 1 \<noteq> CHR '','' then None
      else if tipo = CHR ''L'' then
        (let caracter = cstr linea 2;
             caracter =
               (if cstr linea 2 = CHR ''S'' \<and> cstr linea 3 = CHR ''p'' \<and> cstr linea 4 = CHR ''a''
                then CHR '' '' else caracter)
         in Some (TramaLoad caracter))
      else if tipo = CHR ''M'' then
        (let rotacion = aEntero (drop 2 linea) in Some (TramaMap rotacion))
      else None)"

section \<open>Serial line reader\<close>

text \<open>
  The branch of \<^verbatim>\<open>leerLineaSerial\<close> for POSIX systems. The descriptor is the list of the
  results that the coming calls of \<^verbatim>\<open>read(fd, &c, 1)\<close> will give: a byte, 0 (nothing to
  read) or a negative value (failure). When the list is used up the stream has ended and
  every further \<^verbatim>\<open>read\<close> returns 0. The function returns whether a line was read, the
  characters stored in the buffer and the rest of the stream; \<^verbatim>\<open>usleep\<close> only waits and is
  left out.
\<close>

datatype lectura = Byte char | SinDatos | ErrorLectura

definition read1 :: "lectura list \<Rightarrow> lectura \<times> lectura list" where
  "read1 fd = (case fd of [] \<Rightarrow> (SinDatos, []) | x # xs \<Rightarrow> (x, xs))"

function leerLineaSerial ::
  "lectura list \<Rightarrow> string \<Rightarrow> int \<Rightarrow> bool \<times> string \<times> lectura list" where
  "leerLineaSerial fd buffer maxLen =
     (if int (length buffer) < maxLen - 1 then
        (case read1 fd of (n, fd') \<Rightarrow>
           (case n of
              Byte c \<Rightarrow>
                if c = CHR 0x0A then (length buffer > 0, buffer, fd')
                else if c \<noteq> CHR 0x0D then leerLineaSerial fd' (buffer @ [c]) maxLen
                else leerLineaSerial fd' buffer maxLen
            | SinDatos \<Rightarrow>
                if length buffer > 0 then (True, buffer, fd') else (False, buffer, fd')
            | ErrorLectura \<Rightarrow> (False, buffer, fd')))
      else (length buffer > 0, buffer, fd))"
  by pat_completeness auto
termination
  by (relation "measure (\<lambda>(fd, buffer, maxLen). length fd)")
     (auto simp: read1_def split: list.splits)

declare leerLineaSerial.simps [simp del]

section \<open>Session loop\<close>

text \<open>
  The variables of \<^verbatim>\<open>main\<close> that the loop reads and writes form the record
  \<open>Sesion\<close>. \<open>iteracion\<close> is the body of \<^verbatim>\<open>while (true)\<close>: it says whether the loop goes on
  (\<^verbatim>\<open>continue\<close>, or the end of the body) or stops (\<^verbatim>\<open>break\<close>). \<open>bucle\<close> is the loop
  itself: it may run forever, and then its value is \<open>None\<close>. \<open>main\<close> takes the outcome of
  the search for a serial port: the name and the stream of the first port that opens, or
  \<open>None\<close> if none does. It returns the exit code and what was written to \<^verbatim>\<open>std::cout\<close> and
  \<^verbatim>\<open>std::cerr\<close>. The destructors, which only release memory, are left out.
\<close>

record Sesion =
  miListaDeCarga :: ListaDeCarga
  miRotorDeMapeo :: RotorDeMapeo
  fd :: "lectura list"
  cout :: string
  tramasRecibidas :: int

datatype control = Continuar | Salir

definition c_str :: "string \<Rightarrow> string" where
  "c_str s = takeWhile (\<lambda>c. c \<noteq> CHR 0x00) s"

definition iteracion :: "Sesion \<Rightarrow> (error + control \<times> Sesion) option" where
  "iteracion s0 =
     (case leerLineaSerial (fd s0) [] 256 of (hayDatos, buffer, fd') \<Rightarrow>
        (let s = s0\<lparr>fd := fd'\<rparr> in
         if hayDatos then
           if sonIguales buffer ''FIN'' then
             Some (Inr (Salir, s\<lparr>cout := cout s @ ''Trama recibida: [FIN]. Deteniendo.'' @ endl\<rparr>))
           else if sonIguales buffer ''SISTEMA PRT-7 ACTIVO'' then
             Some (Inr (Continuar,
               s\<lparr>cout := cout s @ ''Mensaje de control recibido: [SISTEMA PRT-7 ACTIVO]''
                          @ endl @ endl\<rparr>))
           else
             (let out = cout s @ ''Trama recibida: ['' @ c_str buffer @ ''] -> Procesando... -> '' in
              case parsearTrama buffer of
                Some trama \<Rightarrow>
                  (case procesar trama (miListaDeCarga s) (miRotorDeMapeo s) out of
                     None \<Rightarrow> None
                   | Some (Inl e) \<Rightarrow> Some (Inl e)
                   | Some (Inr (carga', rotor', out')) \<Rightarrow>
                       Some (Inr (Continuar,
                         s\<lparr>miListaDeCarga := carga', miRotorDeMapeo := rotor',
                           cout := out' @ endl,
                           tramasRecibidas := int32 (tramasRecibidas s + 1)\<rparr>)))
              | None \<Rightarrow>
                  Some (Inr (Continuar,
                    s\<lparr>cout := out @ ''ERROR: Trama mal formada.'' @ endl @ endl\<rparr>)))
         else Some (Inr (Continuar, s))))"

partial_function (option) bucle :: "Sesion \<Rightarrow> (error + Sesion) option" where
  "bucle s =
     (case iteracion s of
        None \<Rightarrow> None
      | Some r \<Rightarrow>
          (case r of
             Inl e \<Rightarrow> Some (Inl e)
           | Inr cs \<Rightarrow> if fst cs = Salir then Some (Inr (snd cs)) else bucle (snd cs)))"

declare bucle.simps [code]

definition banner :: string where
  "banner =
     ''========================================'' @ endl
     @ ''   DECODIFICADOR PRT-7 v1.0'' @ endl
     @ ''   Sistema de Ciberseguridad Industrial'' @ endl
     @ ''========================================'' @ endl
     @ endl
     @ ''Iniciando Decodificador PRT-7. Conectando a puerto COM...'' @ endl"

definition main :: "(string \<times> lectura list) option \<Rightarrow> (error + int \<times> string \<times> string) option" where
  "main puerto =
     (case puerto of
        None \<Rightarrow>
          Some (Inr (1, banner,
            ''ERROR: No se pudo conectar a ningun puerto serial.'' @ endl
            @ ''Verifique que el Arduino este conectado.'' @ endl))
      | Some (nombre, fd0) \<Rightarrow>
          (case bucle \<lparr>miListaDeCarga = ListaDeCarga_nueva, miRotorDeMapeo = RotorDeMapeo_nuevo,
                       fd = fd0,
                       cout = banner @ ''Conexion establecida en '' @ nombre @ endl
                              @ ''Esperando tramas...'' @ endl @ endl,
                       tramasRecibidas = 0\<rparr> of
             None \<Rightarrow> None
           | Some (Inl e) \<Rightarrow> Some (Inl e)
           | Some (Inr s) \<Rightarrow>
               (case imprimirMensaje (miListaDeCarga s)
                       (cout s @ ''---'' @ endl @ ''Flujo de datos terminado.'' @ endl
                        @ ''MENSAJE OCULTO ENSAMBLADO:'' @ endl) of
                  None \<Rightarrow> None
                | Some (Inl e) \<Rightarrow> Some (Inl e)
                | Some (Inr out) \<Rightarrow>
                    Some (Inr (0,
                      out @ endl @ ''---'' @ endl
                      @ ''Liberando memoria... Sistema apagado.'' @ endl, [])))))"

section \<open>Notions used to state the properties\<close>

text \<open>
  None of the following is code of the program. \<open>anillo\<close> is the closed ring of 26 nodes
  written out, and \<open>rotor_en h\<close> the rotor whose head is node \<open>h\<close> of it; \<open>lista_de cs\<close>
  is the payload list holding the characters \<open>cs\<close>. \<open>rotaciones\<close> and \<open>inserciones\<close>
  apply a sequence of calls, so that the states a session can reach are those they return
  from the constructed objects. \<open>forma_cerrada\<close>, \<open>mapeo_cerrado\<close>, \<open>desplazamiento\<close> and
  \<open>entero_decimal\<close> follow the words of the specification: the closed form of the
  mapping after a rotation by \<open>n\<close>, the closed form at the offset of a head symbol, the
  position of the head after a rotation, and the signed decimal integer at the start of a
  payload.
\<close>

definition es_mayuscula :: "char \<Rightarrow> bool" where
  "es_mayuscula c \<longleftrightarrow> \<not> (valor c < valor CHR ''A'' \<or> valor c > valor CHR ''Z'')"

definition nodo_anillo :: "nat \<Rightarrow> NodoRotor" where
  "nodo_anillo i =
     \<lparr>NodoRotor.dato = alfabeto ! i,
      NodoRotor.siguiente = Some ((i + 1) mod 26),
      NodoRotor.previo = Some ((i + 25) mod 26)\<rparr>"

definition anillo :: "NodoRotor list" where
  "anillo = map nodo_anillo [0..<26]"

definition rotor_en :: "nat \<Rightarrow> RotorDeMapeo" where
  "rotor_en h =
     \<lparr>RotorDeMapeo.nodos = anillo, RotorDeMapeo.cabeza = Some h, RotorDeMapeo.tamanio = 26\<rparr>"

fun rotaciones :: "RotorDeMapeo \<Rightarrow> int list \<Rightarrow> error + RotorDeMapeo" where
  "rotaciones r [] = Inr r"
| "rotaciones r (n # ns) =
     (case rotar r n of
        Inl e \<Rightarrow> Inl e
      | Inr r' \<Rightarrow> rotaciones r' ns)"

definition forma_cerrada :: "char \<Rightarrow> int \<Rightarrow> char" where
  "forma_cerrada c n =
     char_of (valor CHR ''A'' + ((valor c - valor CHR ''A'') + n smod 26) mod 26)"

definition mapeo_cerrado :: "char \<Rightarrow> char \<Rightarrow> char" where
  "mapeo_cerrado h c =
     (if es_mayuscula c then
        char_of (valor CHR ''A'' + ((valor c - valor CHR ''A'') + (valor h - valor CHR ''A'')) mod 26)
      else c)"

definition desplazamiento :: "nat \<Rightarrow> int \<Rightarrow> nat" where
  "desplazamiento h n =
     (let p = n smod 26 in
      if 0 < p then (h + nat p) mod 26
      else if p < 0 then (h + 26 - nat (\<bar>n\<bar> mod 26)) mod 26
      else h)"




fun inserciones :: "ListaDeCarga \<Rightarrow> string \<Rightarrow> error + ListaDeCarga" where
  "inserciones l [] = Inr l"
| "inserciones l (d # ds) =
     (case insertarAlFinal l d of
        Inl e \<Rightarrow> Inl e
      | Inr l' \<Rightarrow> inserciones l' ds)"

definition nodo_lista :: "string \<Rightarrow> nat \<Rightarrow> NodoCarga" where
  "nodo_lista cs i =
     \<lparr>dato = cs ! i,
      siguiente = (if i + 1 < length cs then Some (i + 1) else None),
      previo = (if i = 0 then None else Some (i - 1))\<rparr>"

definition lista_de :: "string \<Rightarrow> ListaDeCarga" where
  "lista_de cs =
     \<lparr>nodos = map (nodo_lista cs) [0..<length cs],
      cabeza = (if cs = [] then None else Some 0),
      cola = (if cs = [] then None else Some (length cs - 1)),
      tamanio = int32 (int (length cs))\<rparr>"

definition sesion_de :: "lectura list \<Rightarrow> Sesion" where
  "sesion_de f =
     \<lparr>miListaDeCarga = ListaDeCarga_nueva, miRotorDeMapeo = RotorDeMapeo_nuevo,
      fd = f, cout = [], tramasRecibidas = 0\<rparr>"

definition sesion_inicial :: "string \<Rightarrow> lectura list \<Rightarrow> Sesion" where
  "sesion_inicial nombre f =
     \<lparr>miListaDeCarga = ListaDeCarga_nueva, miRotorDeMapeo = RotorDeMapeo_nuevo,
      fd = f,
      cout = banner @ ''Conexion establecida en '' @ nombre @ endl
             @ ''Esperando tramas...'' @ endl @ endl,
      tramasRecibidas = 0\<rparr>"

definition informe_final :: "string \<Rightarrow> string \<Rightarrow> string" where
  "informe_final out mensaje =
     out @ ''---'' @ endl @ ''Flujo de datos terminado.'' @ endl
     @ ''MENSAJE OCULTO ENSAMBLADO:'' @ endl @ mensaje @ endl @ ''---'' @ endl
     @ ''Liberando memoria... Sistema apagado.'' @ endl"


section \<open>The ring built by the constructor\<close>

lemma RotorDeMapeo_nuevo_eq: "RotorDeMapeo_nuevo = rotor_en 0"
  by code_simp

lemma length_anillo: "length anillo = 26"
  by (simp add: anillo_def)

lemma anillo_nth: "i < 26 \<Longrightarrow> anillo ! i = nodo_anillo i"
  unfolding anillo_def by (simp del: upt_Suc)

lemma nodo_anillo_Some: "i < 26 \<Longrightarrow> nodo anillo (Some i) = Inr (nodo_anillo i)"
  by (simp add: nodo_def length_anillo anillo_nth)

lemma seguir_siguiente_anillo:
  "i < 26 \<Longrightarrow> seguir_siguiente anillo k (Some i) = Inr (Some ((i + k) mod 26))"
proof (induction k arbitrary: i)
  case 0
  then show ?case by simp
next
  case (Suc k)
  have "(i + 1) mod 26 < 26" by simp
  from Suc.IH [OF this] Suc.prems show ?case
    by (simp add: nodo_anillo_Some nodo_anillo_def mod_simps)
qed

lemma seguir_previo_anillo:
  "i < 26 \<Longrightarrow> seguir_previo anillo k (Some i) = Inr (Some ((i + 25 * k) mod 26))"
proof (induction k arbitrary: i)
  case 0
  then show ?case by simp
next
  case (Suc k)
  have "(i + 25) mod 26 < 26" by simp
  from Suc.IH [OF this] Suc.prems show ?case
    by (simp add: nodo_anillo_Some nodo_anillo_def mod_simps algebra_simps)
qed

lemma smod26_neg: "n smod 26 < 0 \<Longrightarrow> n < 0 \<and> n smod 26 = - (\<bar>n\<bar> mod (26::int))"
  by (auto simp: smod_int_alt_def sgn_if split: if_splits)

lemma smod26_bounds: "- 26 < n smod (26::int) \<and> n smod 26 < 26"
  by (auto simp: smod_int_alt_def sgn_if)
lemma smod26_mod: "(n smod 26) mod 26 = n mod (26::int)"
proof (cases "n < 0")
  case True
  then have "n smod 26 = - ((- n) mod 26)" by (simp add: smod_int_alt_def sgn_if)
  then show ?thesis by (simp add: mod_minus_eq)
next
  case False
  then have "n smod 26 = n mod 26" by (auto simp add: smod_int_alt_def sgn_if)
  then show ?thesis by simp
qed

lemma rotor_en_sel:
  "RotorDeMapeo.nodos (rotor_en h) = anillo"
  "RotorDeMapeo.cabeza (rotor_en h) = Some h"
  "RotorDeMapeo.tamanio (rotor_en h) = 26"
  "(rotor_en h)\<lparr>RotorDeMapeo.cabeza := Some k\<rparr> = rotor_en k"
  by (simp_all add: rotor_en_def)

lemma rotar_rotor_en:
  assumes "h < 26"
  shows "rotar (rotor_en h) n = Inr (rotor_en (nat ((int h + n) mod 26)))"
proof -
  define p where "p = n smod 26"
  have tgt: "(int h + p) mod 26 = (int h + n) mod 26"
    unfolding p_def by (metis mod_add_right_eq smod26_mod)
  have rot: "rotar (rotor_en h) n =
     (if p > 0 then
           (case seguir_siguiente anillo (nat p) (Some h) of
              Inl e \<Rightarrow> Inl e
            | Inr q \<Rightarrow> Inr ((rotor_en h)\<lparr>RotorDeMapeo.cabeza := q\<rparr>))
         else if p < 0 then
           (case seguir_previo anillo (nat (- p)) (Some h) of
              Inl e \<Rightarrow> Inl e
            | Inr q \<Rightarrow> Inr ((rotor_en h)\<lparr>RotorDeMapeo.cabeza := q\<rparr>))
         else Inr (rotor_en h))"
    unfolding rotar_def Let_def rotor_en_sel p_def by simp
  consider "0 < p" | "p < 0" | "p = 0" by linarith
  then show ?thesis
  proof cases
    case 1
    have "int ((h + nat p) mod 26) = (int h + p) mod 26"
      using 1 by (simp add: zmod_int)
    then have "(h + nat p) mod 26 = nat ((int h + n) mod 26)"
      using tgt by linarith
    with 1 assms show ?thesis
      by (simp add: rot seguir_siguiente_anillo rotor_en_sel)
  next
    case 2
    have "int ((h + 25 * nat (- p)) mod 26) = (int h + 25 * (- p)) mod 26"
      using 2 by (simp add: zmod_int)
    also have "\<dots> = (int h + p + 26 * (- p)) mod 26"
      by (simp add: algebra_simps)
    also have "\<dots> = (int h + p) mod 26"
      by (rule mod_mult_self2)
    finally have "(h + 25 * nat (- p)) mod 26 = nat ((int h + n) mod 26)"
      using tgt by linarith
    with 2 assms show ?thesis
      by (simp add: rot seguir_previo_anillo rotor_en_sel)
  next
    case 3
    have "(int h + n) mod 26 = int h"
      using tgt 3 assms by simp
    with 3 assms show ?thesis
      by (simp add: rot)
  qed
qed

lemma alfabeto_todos: "\<forall>i \<in> set [0..<26]. alfabeto ! i = char_of (65 + int i)"
  by code_simp

lemma alfabeto_nth: "i < 26 \<Longrightarrow> alfabeto ! i = char_of (65 + int i)"
  using alfabeto_todos by simp

lemma valor_A: "valor CHR ''A'' = 65" and valor_Z: "valor CHR ''Z'' = 90"
  by (simp_all add: valor_def)

lemma getCabeza_rotor_en: "h < 26 \<Longrightarrow> getCabeza (rotor_en h) = Inr (alfabeto ! h)"
  by (simp add: getCabeza_def rotor_en_sel nodo_anillo_Some nodo_anillo_def)

lemma getMapeo_rotor_en:
  assumes "h < 26" and "es_mayuscula c"
  shows "getMapeo (rotor_en h) c = Inr (alfabeto ! ((h + nat (valor c - 65)) mod 26))"
proof -
  have m: "(h + nat (valor c - 65)) mod 26 < 26" by simp
  from assms(2) have "\<not> (valor c < valor CHR ''A'' \<or> valor c > valor CHR ''Z'')"
    by (simp add: es_mayuscula_def)
  then show ?thesis
    unfolding getMapeo_def Let_def rotor_en_sel
    using assms(1) m
    by (simp add: seguir_siguiente_anillo nodo_anillo_Some nodo_anillo_def valor_A)
qed

lemma getMapeo_fuera: "\<not> es_mayuscula c \<Longrightarrow> getMapeo r c = Inr c"
  by (simp add: getMapeo_def es_mayuscula_def)

lemma rotaciones_rotor_en:
  "h < 26 \<Longrightarrow> rotaciones (rotor_en h) ns = Inr (rotor_en (nat ((int h + sum_list ns) mod 26)))"
proof (induction ns arbitrary: h)
  case Nil
  then show ?case by simp
next
  case (Cons n ns)
  let ?k = "nat ((int h + n) mod 26)"
  have k: "?k < 26" by simp
  have "(int ?k + sum_list ns) mod 26 = (int h + (n + sum_list ns)) mod 26"
    by (simp add: mod_simps add.assoc)
  with Cons.IH [OF k] Cons.prems show ?case
    by (simp add: rotar_rotor_en)
qed

lemma rotaciones_nuevo:
  "\<exists>h<26. rotaciones RotorDeMapeo_nuevo ns = Inr (rotor_en h)"
proof -
  have "nat ((int 0 + sum_list ns) mod 26) < 26" by simp
  moreover have "rotaciones (rotor_en 0) ns = Inr (rotor_en (nat ((int 0 + sum_list ns) mod 26)))"
    by (rule rotaciones_rotor_en) simp
  ultimately show ?thesis
    unfolding RotorDeMapeo_nuevo_eq by blast
qed

lemma valor_char_of: "0 \<le> k \<Longrightarrow> k < 256 \<Longrightarrow> valor (char_of (k::int)) = k"
  by (simp add: valor_def of_char_of take_bit_eq_mod)

lemma es_mayuscula_valor: "es_mayuscula c \<longleftrightarrow> 65 \<le> valor c \<and> valor c \<le> 90"
  by (auto simp: es_mayuscula_def valor_A valor_Z)

lemma getMapeo_rotor_en_int:
  assumes "h < 26" and "es_mayuscula c"
  shows "getMapeo (rotor_en h) c = Inr (char_of (65 + (valor c - 65 + int h) mod 26))"
proof -
  from assms(2) have v: "65 \<le> valor c" by (simp add: es_mayuscula_valor)
  have "int ((h + nat (valor c - 65)) mod 26) = (valor c - 65 + int h) mod 26"
    using v by (simp add: zmod_int add.commute)
  then show ?thesis
    using assms by (simp add: getMapeo_rotor_en alfabeto_nth)
qed

lemma desplazamiento_eq:
  assumes "h < 26"
  shows "desplazamiento h n = nat ((int h + n) mod 26)"
proof -
  define p where "p = n smod 26"
  have tgt: "(int h + p) mod 26 = (int h + n) mod 26"
    unfolding p_def by (metis mod_add_right_eq smod26_mod)
  consider "0 < p" | "p < 0" | "p = 0" by linarith
  then show ?thesis
  proof cases
    case 1
    have "int ((h + nat p) mod 26) = (int h + p) mod 26"
      using 1 by (simp add: zmod_int)
    then have "(h + nat p) mod 26 = nat ((int h + n) mod 26)"
      using tgt by linarith
    with 1 show ?thesis by (simp add: desplazamiento_def p_def)
  next
    case 2
    then have k: "\<bar>n\<bar> mod 26 = - p" and b: "- 26 < p"
      using smod26_neg [of n] smod26_bounds [of n] by (simp_all add: p_def)
    have "int ((h + 26 - nat (- p)) mod 26) = (int h + p + 26 * 1) mod 26"
      using 2 b by (simp add: zmod_int of_nat_diff algebra_simps)
    also have "\<dots> = (int h + p) mod 26"
      by (rule mod_mult_self2)
    finally have "(h + 26 - nat (- p)) mod 26 = nat ((int h + n) mod 26)"
      using tgt by linarith
    with 2 k show ?thesis by (simp add: desplazamiento_def p_def)
  next
    case 3
    have "(int h + n) mod 26 = int h"
      using tgt 3 assms by simp
    with 3 show ?thesis by (simp add: desplazamiento_def p_def)
  qed
qed

lemma desplazamiento_lt: "h < 26 \<Longrightarrow> desplazamiento h n < 26"
  by (simp add: desplazamiento_eq)

lemma caminar_adelante:
  assumes "h < 26" and "0 < n smod 26"
  shows "seguir_siguiente anillo (nat (n smod 26)) (Some h) = Inr (Some (desplazamiento h n))"
  using assms by (simp add: seguir_siguiente_anillo desplazamiento_def)

lemma caminar_atras:
  assumes "h < 26" and "n smod 26 < 0"
  shows "seguir_previo anillo (nat (\<bar>n\<bar> mod 26)) (Some h) = Inr (Some (desplazamiento h n))"
proof -
  define k where "k = nat (\<bar>n\<bar> mod 26)"
  have "\<bar>n\<bar> mod 26 = - (n smod 26)"
    using smod26_neg [OF assms(2)] by simp
  with assms(2) have k: "0 < k" "k < 26"
    using smod26_bounds [of n] by (simp_all add: k_def)
  have "h + 25 * k = (h + 26 - k) + 26 * (k - 1)"
    using k by (simp add: algebra_simps)
  then have "(h + 25 * k) mod 26 = (h + 26 - k + 26 * (k - 1)) mod 26"
    by (rule arg_cong)
  also have "\<dots> = (h + 26 - k) mod 26"
    by (rule mod_mult_self2)
  finally have "(h + 25 * k) mod 26 = desplazamiento h n"
    using assms(2) by (simp add: desplazamiento_def k_def)
  then show ?thesis
    using assms(1) by (simp add: seguir_previo_anillo k_def)
qed


section \<open>The parser on C strings\<close>











lemma cstr_Cons_0: "cstr (c # s) 0 = c"
  by (simp add: cstr_def)

lemma cstr_Cons_Suc: "cstr (c # s) (Suc i) = cstr s i"
  by (simp add: cstr_def)

lemma cstr_Nil: "cstr [] i = CHR 0x00"
  by (simp add: cstr_def)

lemma prefijo_Spa:
  "(cstr p 0 = CHR ''S'' \<and> cstr p 1 = CHR ''p'' \<and> cstr p 2 = CHR ''a'') \<longleftrightarrow> take 3 p = ''Spa''"
proof (cases p)
  case Nil
  then show ?thesis by (simp add: cstr_Nil)
next
  case p1: (Cons a q)
  show ?thesis
  proof (cases q)
    case Nil
    with p1 show ?thesis by (simp add: cstr_Cons_0 cstr_Cons_Suc cstr_Nil)
  next
    case p2: (Cons b q')
    show ?thesis
    proof (cases q')
      case Nil
      with p1 p2 show ?thesis
        by (simp add: cstr_Cons_0 cstr_Cons_Suc cstr_Nil numeral_2_eq_2)
    next
      case (Cons c q'')
      with p1 p2 show ?thesis
        by (simp add: cstr_Cons_0 cstr_Cons_Suc numeral_2_eq_2 numeral_3_eq_3)
    qed
  qed
qed

section \<open>The payload list and the session loop\<close>

lemma ListaDeCarga_nueva_eq: "ListaDeCarga_nueva = lista_de []"
  by (simp add: ListaDeCarga_nueva_def lista_de_def int32_def)

lemma int32_suc: "int32 (int32 k + 1) = int32 (k + 1)"
proof -
  have "signed_take_bit 31 (signed_take_bit 31 k + signed_take_bit 31 1) = signed_take_bit 31 (k + (1::int))"
    by (rule signed_take_bit_add)
  then show ?thesis by (simp add: int32_def)
qed

lemma insertarAlFinal_lista_de: "insertarAlFinal (lista_de cs) d = Inr (lista_de (cs @ [d]))"
proof (cases "cs = []")
  case True
  then show ?thesis
    by (simp add: insertarAlFinal_def lista_de_def Let_def nuevo_NodoCarga_def nodo_lista_def int32_def)
next
  case False
  then have n: "0 < length cs" by simp
  define m0 where "m0 = map (nodo_lista cs) [0..<length cs] @ [nuevo_NodoCarga d]"
  define m1 where "m1 = m0[length cs - 1 := (m0 ! (length cs - 1))\<lparr>siguiente := Some (length cs)\<rparr>]"
  define m2 where "m2 = m1[length cs := (m1 ! length cs)\<lparr>previo := Some (length cs - 1)\<rparr>]"
  have m: "m2 = map (nodo_lista (cs @ [d])) [0..<length (cs @ [d])]"
  proof (rule nth_equalityI)
    show "length m2 = length (map (nodo_lista (cs @ [d])) [0..<length (cs @ [d])])"
      by (simp add: m2_def m1_def m0_def)
  next
    fix i
    assume "i < length m2"
    then have i: "i < length cs + 1" by (simp add: m2_def m1_def m0_def)
    show "m2 ! i = map (nodo_lista (cs @ [d])) [0..<length (cs @ [d])] ! i"
    proof (cases "i = length cs")
      case True
      then show ?thesis
        using n by (simp add: m2_def m1_def m0_def nth_append nodo_lista_def nuevo_NodoCarga_def
            del: upt_Suc)
    next
      case False
      with i have "i < length cs" by simp
      then show ?thesis
        using n by (cases "i = length cs - 1")
          (auto simp add: m2_def m1_def m0_def nth_append nodo_lista_def nth_list_update
            simp del: upt_Suc)
    qed
  qed
  have "insertarAlFinal (lista_de cs) d =
      Inr \<lparr>nodos = m2, cabeza = Some 0, cola = Some (length cs),
           tamanio = int32 (int32 (int (length cs)) + 1)\<rparr>"
    using False n
    by (simp add: insertarAlFinal_def lista_de_def Let_def m2_def m1_def m0_def del: upt_Suc)
  also have "\<dots> = Inr (lista_de (cs @ [d]))"
    unfolding m int32_suc by (simp add: lista_de_def add.commute)
  finally show ?thesis .
qed

lemma inserciones_lista_de: "inserciones (lista_de cs) ds = Inr (lista_de (cs @ ds))"
  by (induction ds arbitrary: cs) (simp_all add: insertarAlFinal_lista_de)

lemma inserciones_nueva: "inserciones ListaDeCarga_nueva cs = Inr (lista_de cs)"
  by (simp add: ListaDeCarga_nueva_eq inserciones_lista_de)


lemma lista_de_sel:
  "ListaDeCarga.nodos (lista_de cs) = map (nodo_lista cs) [0..<length cs]"
  "ListaDeCarga.cabeza (lista_de cs) = (if cs = [] then None else Some 0)"
  by (simp_all add: lista_de_def)

lemma imprimirConFormato_bucle_lista:
  "i \<le> length cs \<Longrightarrow>
     imprimirConFormato_bucle (map (nodo_lista cs) [0..<length cs])
        (if i < length cs then Some i else None) out
     = Some (Inr (out @ concat (map (\<lambda>c. ''['' @ [c] @ '']'') (drop i cs))))"
proof (induction "length cs - i" arbitrary: i out)
  case 0
  then show ?case
    by (subst imprimirConFormato_bucle.simps) simp
next
  case (Suc k)
  then have i: "i < length cs" by simp
  have d: "drop i cs = cs ! i # drop (i + 1) cs"
    using i by (simp add: Cons_nth_drop_Suc)
  have "imprimirConFormato_bucle (map (nodo_lista cs) [0..<length cs]) (Some i) out
      = imprimirConFormato_bucle (map (nodo_lista cs) [0..<length cs])
          (if i + 1 < length cs then Some (i + 1) else None) (out @ ''['' @ [cs ! i] @ '']'')"
    using i by (subst imprimirConFormato_bucle.simps) (simp add: nodo_lista_def del: upt_Suc)
  also have "\<dots> = Some (Inr ((out @ ''['' @ [cs ! i] @ '']'')
        @ concat (map (\<lambda>c. ''['' @ [c] @ '']'') (drop (i + 1) cs))))"
    using Suc.hyps(2) i by (intro Suc.hyps(1)) simp_all
  finally show ?case using i d by simp
qed


lemma imprimirConFormato_lista:
  "imprimirConFormato (lista_de cs) out
     = Some (Inr (out @ ''Mensaje: '' @ concat (map (\<lambda>c. ''['' @ [c] @ '']'') cs)))"
  using imprimirConFormato_bucle_lista [of 0 cs "out @ ''Mensaje: ''"]
  by (cases "cs = []") (simp_all add: imprimirConFormato_def lista_de_sel del: upt_Suc)


lemma getMapeo_total: "h < 26 \<Longrightarrow> \<exists>d. getMapeo (rotor_en h) c = Inr d"
  by (cases "es_mayuscula c") (simp_all add: getMapeo_rotor_en getMapeo_fuera)

lemma procesar_load_alcanzable:
  assumes "h < 26"
  shows "\<exists>d out'. getMapeo (rotor_en h) c = Inr d
      \<and> procesar (TramaLoad c) (lista_de cs) (rotor_en h) out
           = Some (Inr (lista_de (cs @ [d]), rotor_en h, out'))"
proof -
  obtain d where d: "getMapeo (rotor_en h) c = Inr d"
    using getMapeo_total [OF assms] by blast
  then show ?thesis
    by (simp add: insertarAlFinal_lista_de imprimirConFormato_lista Let_def)
qed

lemma procesar_map_alcanzable:
  assumes "h < 26"
  shows "\<exists>out'. procesar (TramaMap n) l (rotor_en h) out
           = Some (Inr (l, rotor_en (desplazamiento h n), out'))"
  using assms
  by (simp add: rotar_rotor_en desplazamiento_eq [symmetric] getCabeza_rotor_en desplazamiento_lt)

lemma parsearTrama_None_iff:
  "parsearTrama linea = None \<longleftrightarrow>
     cstr linea 1 \<noteq> CHR '','' \<or> (cstr linea 0 \<noteq> CHR ''L'' \<and> cstr linea 0 \<noteq> CHR ''M'')"
  by (simp add: parsearTrama_def Let_def)

lemma iteracion_mal_formada:
  assumes "leerLineaSerial (fd s) [] 256 = (True, linea, fd')"
    and "\<not> sonIguales linea ''FIN''" and "\<not> sonIguales linea ''SISTEMA PRT-7 ACTIVO''"
    and "parsearTrama linea = None"
  shows "iteracion s = Some (Inr (Continuar,
           s\<lparr>fd := fd',
             cout := cout s @ ''Trama recibida: ['' @ c_str linea @ ''] -> Procesando... -> ''
                     @ ''ERROR: Trama mal formada.'' @ endl @ endl\<rparr>))"
  using assms by (simp add: iteracion_def Let_def)


















section \<open>A sample session\<close>

text \<open>
  The whole program on a short stream: the greeting, a rotation by 3, the letter \<open>A\<close>,
  a malformed line, the space placeholder, a rotation by \<open>-5\<close>, the letter \<open>C\<close> and
  \<open>FIN\<close>. The message assembled is \<open>D A\<close>.
\<close>

lemma sesion_ejemplo:
  "main (Some (''/dev/ttyUSB0'',
      map Byte (''SISTEMA PRT-7 ACTIVO'' @ endl @ ''M,+3'' @ endl @ ''L,A'' @ endl
                @ ''X,5'' @ endl @ ''L,Space'' @ endl @ ''M,-5'' @ endl @ ''L,C'' @ endl
                @ ''FIN'' @ endl)))
   = Some (Inr (0,
       informe_final
         (cout (sesion_inicial ''/dev/ttyUSB0'' [])
          @ ''Mensaje de control recibido: [SISTEMA PRT-7 ACTIVO]'' @ endl @ endl
          @ ''Trama recibida: [M,+3] -> Procesando... -> ROTANDO ROTOR +3. (Ahora ''
          @ [CHR 0x27] @ ''A'' @ [CHR 0x27] @ '' se mapea a '' @ [CHR 0x27] @ ''D''
          @ [CHR 0x27] @ '')'' @ endl @ endl
          @ ''Trama recibida: [L,A] -> Procesando... -> Fragmento '' @ [CHR 0x27] @ ''A''
          @ [CHR 0x27] @ '' decodificado como '' @ [CHR 0x27] @ ''D'' @ [CHR 0x27]
          @ ''. Mensaje: [D]'' @ endl @ endl
          @ ''Trama recibida: [X,5] -> Procesando... -> ERROR: Trama mal formada.'' @ endl @ endl
          @ ''Trama recibida: [L,Space] -> Procesando... -> Fragmento '' @ [CHR 0x27] @ '' ''
          @ [CHR 0x27] @ '' decodificado como '' @ [CHR 0x27] @ '' '' @ [CHR 0x27]
          @ ''. Mensaje: [D][ ]'' @ endl @ endl
          @ ''Trama recibida: [M,-5] -> Procesando... -> ROTANDO ROTOR -5. (Ahora ''
          @ [CHR 0x27] @ ''A'' @ [CHR 0x27] @ '' se mapea a '' @ [CHR 0x27] @ ''Y''
          @ [CHR 0x27] @ '')'' @ endl @ endl
          @ ''Trama recibida: [L,C] -> Procesando... -> Fragmento '' @ [CHR 0x27] @ ''C''
          @ [CHR 0x27] @ '' decodificado como '' @ [CHR 0x27] @ ''A'' @ [CHR 0x27]
          @ ''. Mensaje: [D][ ][A]'' @ endl @ endl
          @ ''Trama recibida: [FIN]. Deteniendo.'' @ endl)
         ''D A'', []))"
  by code_simp

section \<open>Properties of the rotor\<close>

text \<open>
  C1. For every uppercase letter \<open>c\<close> and every integer \<open>n\<close>, rotating the freshly
  constructed rotor by \<open>n\<close> and then mapping \<open>c\<close> by the ring walk of \<open>getMapeo\<close>
  gives the letter of the closed form \<open>((c - 'A') + (n mod 26)) mod 26\<close> (the inner
  remainder taken with the sign of \<open>n\<close>, the outer one in \<open>0..25\<close>); and in every state
  reached by rotations the ring walk agrees, for every input character, with the closed
  form taken at the offset of the current head symbol.
\<close>

theorem mapeo_equivale_forma_cerrada:
  "(es_mayuscula c \<longrightarrow>
      (\<exists>r. rotar RotorDeMapeo_nuevo n = Inr r \<and> getMapeo r c = Inr (forma_cerrada c n)))
   \<and> (\<exists>r h. rotaciones RotorDeMapeo_nuevo ns = Inr r \<and> getCabeza r = Inr h
          \<and> getMapeo r c = Inr (mapeo_cerrado h c))"
proof
  show "es_mayuscula c \<longrightarrow>
      (\<exists>r. rotar RotorDeMapeo_nuevo n = Inr r \<and> getMapeo r c = Inr (forma_cerrada c n))"
  proof
    assume c: "es_mayuscula c"
    let ?h = "nat ((int 0 + n) mod 26)"
    have r: "rotar RotorDeMapeo_nuevo n = Inr (rotor_en ?h)"
      unfolding RotorDeMapeo_nuevo_eq by (rule rotar_rotor_en) simp
    have "(valor c - 65 + int ?h) mod 26 = (valor c - 65 + n) mod 26"
      by (simp add: mod_simps)
    also have "\<dots> = (valor c - 65 + n smod 26) mod 26"
      by (metis mod_add_right_eq smod26_mod)
    finally have "getMapeo (rotor_en ?h) c = Inr (forma_cerrada c n)"
      using c by (simp add: getMapeo_rotor_en_int forma_cerrada_def valor_A)
    with r show "\<exists>r. rotar RotorDeMapeo_nuevo n = Inr r \<and> getMapeo r c = Inr (forma_cerrada c n)"
      by blast
  qed
next
  obtain h where h: "h < 26" and r: "rotaciones RotorDeMapeo_nuevo ns = Inr (rotor_en h)"
    using rotaciones_nuevo by blast
  have cab: "getCabeza (rotor_en h) = Inr (char_of (65 + int h))"
    using h by (simp add: getCabeza_rotor_en alfabeto_nth)
  have vh: "valor (char_of (65 + int h)) - 65 = int h"
    using h by (simp add: valor_char_of)
  have "getMapeo (rotor_en h) c = Inr (mapeo_cerrado (char_of (65 + int h)) c)"
  proof (cases "es_mayuscula c")
    case True
    then show ?thesis
      using h by (simp add: getMapeo_rotor_en_int mapeo_cerrado_def valor_A vh)
  next
    case False
    then show ?thesis
      by (simp add: getMapeo_fuera mapeo_cerrado_def)
  qed
  with r cab show "\<exists>r h. rotaciones RotorDeMapeo_nuevo ns = Inr r \<and> getCabeza r = Inr h
          \<and> getMapeo r c = Inr (mapeo_cerrado h c)"
    by blast
qed

theorem mapeo_equivale_forma_cerrada_witness:
  "es_mayuscula CHR ''C''
   \<and> (\<exists>r. rotar RotorDeMapeo_nuevo (- 27) = Inr r \<and> getMapeo r CHR ''C'' = Inr CHR ''B'')
   \<and> (\<exists>r. rotaciones RotorDeMapeo_nuevo [3, - 5] = Inr r \<and> getCabeza r = Inr CHR ''Y''
          \<and> getMapeo r CHR ''C'' = Inr CHR ''A'' \<and> getMapeo r CHR ''c'' = Inr CHR ''c'')"
proof -
  have m: "es_mayuscula CHR ''C''"
    by (simp add: es_mayuscula_def valor_def)
  have f: "forma_cerrada CHR ''C'' (- 27) = CHR ''B''"
    by code_simp
  have r: "rotaciones RotorDeMapeo_nuevo [3, - 5] = Inr (rotor_en 24)"
    and c: "getCabeza (rotor_en 24) = Inr CHR ''Y''"
    and g: "mapeo_cerrado CHR ''Y'' CHR ''C'' = CHR ''A''"
      "mapeo_cerrado CHR ''Y'' CHR ''c'' = CHR ''c''"
    by code_simp+
  from mapeo_equivale_forma_cerrada [of "CHR ''C''" "- 27" "[3, - 5]"] m f
  have 1: "\<exists>r. rotar RotorDeMapeo_nuevo (- 27) = Inr r \<and> getMapeo r CHR ''C'' = Inr CHR ''B''"
    by simp
  from mapeo_equivale_forma_cerrada [of "CHR ''C''" 0 "[3, - 5]"]
    mapeo_equivale_forma_cerrada [of "CHR ''c''" 0 "[3, - 5]"] r c g
  have 2: "getMapeo (rotor_en 24) CHR ''C'' = Inr CHR ''A''"
    "getMapeo (rotor_en 24) CHR ''c'' = Inr CHR ''c''"
    by (auto simp del: rotaciones.simps)
  from m 1 2 r c show ?thesis by blast
qed

text \<open>
  C3. In every state reached by rotations, \<open>rotar r n\<close> moves the head by the truncating
  remainder \<open>n smod 26\<close>: when it is positive, to the node reached by following that
  many \<open>siguiente\<close> links; when it is negative, to the node reached by following
  \<open>\<bar>n\<bar> mod 26\<close> \<open>previo\<close> links; and not at all when it is zero, so that
  \<open>rotar r 26\<close> and \<open>rotar r 0\<close> return the rotor unchanged. Node \<open>i\<close> of the ring holds
  the \<open>i\<close>-th letter, so the head symbol moves in the same way.
\<close>

theorem rotar_desplaza_cabeza:
  "\<exists>r h. rotaciones RotorDeMapeo_nuevo ns = Inr r \<and> h < 26
      \<and> RotorDeMapeo.cabeza r = Some h \<and> getCabeza r = Inr (alfabeto ! h)
      \<and> rotar r n = Inr (r\<lparr>RotorDeMapeo.cabeza := Some (desplazamiento h n)\<rparr>)
      \<and> getCabeza (r\<lparr>RotorDeMapeo.cabeza := Some (desplazamiento h n)\<rparr>)
            = Inr (alfabeto ! desplazamiento h n)
      \<and> (0 < n smod 26 \<longrightarrow>
            seguir_siguiente (RotorDeMapeo.nodos r) (nat (n smod 26)) (Some h)
              = Inr (Some (desplazamiento h n)))
      \<and> (n smod 26 < 0 \<longrightarrow>
            seguir_previo (RotorDeMapeo.nodos r) (nat (\<bar>n\<bar> mod 26)) (Some h)
              = Inr (Some (desplazamiento h n)))
      \<and> (n smod 26 = 0 \<longrightarrow> rotar r n = Inr r)
      \<and> rotar r 26 = Inr r \<and> rotar r 0 = Inr r"
proof -
  obtain h where h: "h < 26" and r: "rotaciones RotorDeMapeo_nuevo ns = Inr (rotor_en h)"
    using rotaciones_nuevo by blast
  have rot: "rotar (rotor_en h) m = Inr (rotor_en (desplazamiento h m))" for m
    using h by (simp add: rotar_rotor_en desplazamiento_eq)
  have z: "m smod 26 = 0 \<Longrightarrow> desplazamiento h m = h" for m
    by (simp add: desplazamiento_def)
  have "RotorDeMapeo.cabeza (rotor_en h) = Some h" by (simp add: rotor_en_sel)
  moreover have "getCabeza (rotor_en h) = Inr (alfabeto ! h)"
    using h by (rule getCabeza_rotor_en)
  moreover have "rotar (rotor_en h) n
      = Inr ((rotor_en h)\<lparr>RotorDeMapeo.cabeza := Some (desplazamiento h n)\<rparr>)"
    by (simp add: rot rotor_en_sel)
  moreover have "getCabeza ((rotor_en h)\<lparr>RotorDeMapeo.cabeza := Some (desplazamiento h n)\<rparr>)
      = Inr (alfabeto ! desplazamiento h n)"
    using h by (simp add: rotor_en_sel getCabeza_rotor_en desplazamiento_lt)
  moreover have "0 < n smod 26 \<longrightarrow>
            seguir_siguiente (RotorDeMapeo.nodos (rotor_en h)) (nat (n smod 26)) (Some h)
              = Inr (Some (desplazamiento h n))"
    using h by (simp add: rotor_en_sel caminar_adelante)
  moreover have "n smod 26 < 0 \<longrightarrow>
            seguir_previo (RotorDeMapeo.nodos (rotor_en h)) (nat (\<bar>n\<bar> mod 26)) (Some h)
              = Inr (Some (desplazamiento h n))"
    using h by (simp add: rotor_en_sel caminar_atras)
  moreover have "n smod 26 = 0 \<longrightarrow> rotar (rotor_en h) n = Inr (rotor_en h)"
    by (simp add: rot z)
  moreover have "rotar (rotor_en h) 26 = Inr (rotor_en h)"
    by (simp add: rot z smod_int_alt_def)
  moreover have "rotar (rotor_en h) 0 = Inr (rotor_en h)"
    by (simp add: rot z smod_int_alt_def)
  ultimately show ?thesis using h r by blast
qed

theorem rotar_desplaza_cabeza_witness:
  "\<exists>r. rotaciones RotorDeMapeo_nuevo [3] = Inr r
      \<and> RotorDeMapeo.cabeza r = Some 3 \<and> getCabeza r = Inr CHR ''D''
      \<and> (- 30) smod 26 = (- 4 :: int)
      \<and> rotar r (- 30) = Inr (r\<lparr>RotorDeMapeo.cabeza := Some 25\<rparr>)
      \<and> seguir_previo (RotorDeMapeo.nodos r) 4 (Some 3) = Inr (Some 25)
      \<and> getCabeza (r\<lparr>RotorDeMapeo.cabeza := Some 25\<rparr>) = Inr CHR ''Z''
      \<and> rotar r 26 = Inr r \<and> rotar r 0 = Inr r"
proof -
  have r3: "rotaciones RotorDeMapeo_nuevo [3] = Inr (rotor_en 3)"
    by code_simp
  have d: "desplazamiento 3 (- 30) = 25" "alfabeto ! 3 = CHR ''D''" "alfabeto ! 25 = CHR ''Z''"
    "(- 30) smod 26 = (- 4 :: int)" "nat (\<bar>- 30\<bar> mod 26) = 4"
    by code_simp+
  from rotar_desplaza_cabeza [of "[3]" "- 30"] r3 d
  show ?thesis
    by (auto simp: rotor_en_sel simp del: seguir_previo.simps seguir_siguiente.simps)
qed

text \<open>
  C7. In every state reached by rotations, rotating by \<open>n\<close> and then by \<open>- n\<close> restores
  the head symbol (indeed the whole rotor), for every integer \<open>n\<close>.
\<close>

theorem rotar_ida_y_vuelta:
  "\<exists>r r1 r2. rotaciones RotorDeMapeo_nuevo ns = Inr r \<and> rotar r n = Inr r1
      \<and> rotar r1 (- n) = Inr r2 \<and> getCabeza r2 = getCabeza r \<and> r2 = r"
proof -
  obtain h where h: "h < 26" and r: "rotaciones RotorDeMapeo_nuevo ns = Inr (rotor_en h)"
    using rotaciones_nuevo by blast
  let ?k = "nat ((int h + n) mod 26)"
  have k: "?k < 26" by simp
  have r1: "rotar (rotor_en h) n = Inr (rotor_en ?k)"
    using h by (rule rotar_rotor_en)
  have "(int ?k + - n) mod 26 = (int h + n + - n) mod 26"
    by (simp add: mod_simps)
  then have "nat ((int ?k + - n) mod 26) = h"
    using h by simp
  then have r2: "rotar (rotor_en ?k) (- n) = Inr (rotor_en h)"
    using rotar_rotor_en [OF k, of "- n"] by simp
  from r r1 r2 show ?thesis by blast
qed

theorem rotar_ida_y_vuelta_witness:
  "\<exists>r r1 r2. rotaciones RotorDeMapeo_nuevo [5] = Inr r \<and> rotar r 40 = Inr r1
      \<and> rotar r1 (- 40) = Inr r2 \<and> getCabeza r = Inr CHR ''F''
      \<and> getCabeza r2 = Inr CHR ''F''"
proof -
  have "rotaciones RotorDeMapeo_nuevo [5] = Inr (rotor_en 5)"
    and "getCabeza (rotor_en 5) = Inr CHR ''F''"
    by code_simp+
  with rotar_ida_y_vuelta [of "[5]" 40] show ?thesis
    by auto
qed

text \<open>
  C8. A character outside \<open>'A'..'Z'\<close> is returned unchanged by \<open>getMapeo\<close>, in every
  state reached by rotations and in fact in any rotor state whatsoever.
\<close>

theorem getMapeo_identidad_fuera_de_AZ:
  assumes "valor c < valor CHR ''A'' \<or> valor c > valor CHR ''Z''"
  shows "(\<exists>r. rotaciones RotorDeMapeo_nuevo ns = Inr r \<and> getMapeo r c = Inr c)
         \<and> getMapeo r0 c = Inr c"
proof -
  from assms have f: "getMapeo r c = Inr c" for r
    by (simp add: getMapeo_def)
  obtain h where "rotaciones RotorDeMapeo_nuevo ns = Inr (rotor_en h)"
    using rotaciones_nuevo by blast
  with f show ?thesis by blast
qed

theorem getMapeo_identidad_fuera_de_AZ_witness:
  "(valor CHR ''7'' < valor CHR ''A'' \<or> valor CHR ''7'' > valor CHR ''Z'')
   \<and> (\<exists>r. rotaciones RotorDeMapeo_nuevo [4, - 9] = Inr r \<and> getMapeo r CHR ''7'' = Inr CHR ''7'')
   \<and> getMapeo (rotor_en 11) CHR ''7'' = Inr CHR ''7''"
proof -
  have h: "valor CHR ''7'' < valor CHR ''A'' \<or> valor CHR ''7'' > valor CHR ''Z''"
    by (simp add: valor_def)
  from getMapeo_identidad_fuera_de_AZ [OF h, of "[4, - 9]" "rotor_en 11"] h
  show ?thesis by simp
qed



section \<open>Properties of the line parser\<close>

text \<open>
  C4. A line \<open>L,<payload>\<close> always yields a Load frame. Its character is the space when
  the payload begins with \<open>Spa\<close>, whatever follows, and otherwise the character right
  after the comma (the string terminator when the payload is empty).
\<close>

theorem parsear_load:
  "parsearTrama (''L,'' @ payload)
     = Some (TramaLoad (if take 3 payload = ''Spa'' then CHR '' ''
                        else (case payload of [] \<Rightarrow> CHR 0x00 | c # resto \<Rightarrow> c)))"
proof -
  have i: "cstr (''L,'' @ payload) 0 = CHR ''L''" "cstr (''L,'' @ payload) 1 = CHR '',''"
    "cstr (''L,'' @ payload) (2 + k) = cstr payload k" for k
    by (simp_all add: cstr_def)
  have j: "cstr (''L,'' @ payload) 2 = cstr payload 0" "cstr (''L,'' @ payload) 3 = cstr payload 1"
    "cstr (''L,'' @ payload) 4 = cstr payload 2"
    using i(3) [of 0] i(3) [of 1] i(3) [of 2] by simp_all
  have z: "cstr payload 0 = (case payload of [] \<Rightarrow> CHR 0x00 | c # resto \<Rightarrow> c)"
    by (cases payload) (simp_all add: cstr_def)
  have "parsearTrama (''L,'' @ payload)
      = Some (TramaLoad (if cstr payload 0 = CHR ''S'' \<and> cstr payload 1 = CHR ''p''
                            \<and> cstr payload 2 = CHR ''a''
                         then CHR '' '' else cstr payload 0))"
    unfolding parsearTrama_def Let_def i(1,2) j by simp
  then have "parsearTrama (''L,'' @ payload)
      = Some (TramaLoad (if take 3 payload = ''Spa'' then CHR '' '' else cstr payload 0))"
    by (simp only: prefijo_Spa)
  then show ?thesis
    by (simp only: z)
qed

theorem parsear_load_witness:
  "parsearTrama ''L,Spanish'' = Some (TramaLoad CHR '' '')
   \<and> parsearTrama ''L,Q'' = Some (TramaLoad CHR ''Q'')
   \<and> parsearTrama ''L,'' = Some (TramaLoad CHR 0x00)"
  using parsear_load [of "''Spanish''"] parsear_load [of "''Q''"] parsear_load [of "[]"]
  by simp




text \<open>
  C6. The parser returns no frame exactly when the character at index 1 is not a comma
  or the character at index 0 is neither \<open>L\<close> nor \<open>M\<close>; the lines \<open>X,5\<close> and \<open>LA\<close> are
  such lines. When the loop has read such a line (one that is neither of the two control
  lines), the iteration prints the malformed-frame message, and the rotor, the payload
  list and the frame counter stay as they were.
\<close>

theorem parsear_falla_sii:
  "(parsearTrama linea = None \<longleftrightarrow>
      cstr linea 1 \<noteq> CHR '','' \<or> (cstr linea 0 \<noteq> CHR ''L'' \<and> cstr linea 0 \<noteq> CHR ''M''))
   \<and> parsearTrama ''X,5'' = None \<and> parsearTrama ''LA'' = None
   \<and> (leerLineaSerial (fd s) [] 256 = (True, linea, fd')
        \<and> \<not> sonIguales linea ''FIN'' \<and> \<not> sonIguales linea ''SISTEMA PRT-7 ACTIVO''
        \<and> parsearTrama linea = None
      \<longrightarrow> iteracion s = Some (Inr (Continuar,
             s\<lparr>fd := fd',
               cout := cout s @ ''Trama recibida: ['' @ c_str linea @ ''] -> Procesando... -> ''
                       @ ''ERROR: Trama mal formada.'' @ endl @ endl\<rparr>)))"
proof (intro conjI)
  show "parsearTrama linea = None \<longleftrightarrow>
      cstr linea 1 \<noteq> CHR '','' \<or> (cstr linea 0 \<noteq> CHR ''L'' \<and> cstr linea 0 \<noteq> CHR ''M'')"
    by (rule parsearTrama_None_iff)
  show "parsearTrama ''X,5'' = None"
    by (simp add: parsearTrama_None_iff cstr_def)
  show "parsearTrama ''LA'' = None"
    by (simp add: parsearTrama_None_iff cstr_def)
  show "leerLineaSerial (fd s) [] 256 = (True, linea, fd')
        \<and> \<not> sonIguales linea ''FIN'' \<and> \<not> sonIguales linea ''SISTEMA PRT-7 ACTIVO''
        \<and> parsearTrama linea = None
      \<longrightarrow> iteracion s = Some (Inr (Continuar,
             s\<lparr>fd := fd',
               cout := cout s @ ''Trama recibida: ['' @ c_str linea @ ''] -> Procesando... -> ''
                       @ ''ERROR: Trama mal formada.'' @ endl @ endl\<rparr>))"
    using iteracion_mal_formada by blast
qed

theorem parsear_falla_sii_witness:
  "cstr ''X,5'' 1 = CHR '','' \<and> cstr ''X,5'' 0 \<noteq> CHR ''L'' \<and> cstr ''X,5'' 0 \<noteq> CHR ''M''
   \<and> parsearTrama ''X,5'' = None
   \<and> iteracion (sesion_de (map Byte (''X,5'' @ endl)))
       = Some (Inr (Continuar,
           (sesion_de [])\<lparr>cout := ''Trama recibida: [X,5] -> Procesando... -> ''
                       @ ''ERROR: Trama mal formada.'' @ endl @ endl\<rparr>))"
proof -
  have a: "leerLineaSerial (fd (sesion_de (map Byte (''X,5'' @ endl)))) [] 256 = (True, ''X,5'', [])"
    by code_simp
  have b: "\<not> sonIguales ''X,5'' ''FIN''" "\<not> sonIguales ''X,5'' ''SISTEMA PRT-7 ACTIVO''"
    by code_simp+
  have c: "cstr ''X,5'' 1 = CHR '',''" "cstr ''X,5'' 0 \<noteq> CHR ''L''" "cstr ''X,5'' 0 \<noteq> CHR ''M''"
    by (simp_all add: cstr_def)
  have d: "c_str ''X,5'' = ''X,5''"
    by (simp add: c_str_def)
  from parsear_falla_sii [of "''X,5''" "sesion_de (map Byte (''X,5'' @ endl))" "[]"] a b c d
  show ?thesis
    by (simp add: sesion_de_def)
qed

section \<open>Properties of frame processing and of the session loop\<close>

text \<open>
  C10. In every state reached by rotations and insertions, processing a Map frame returns
  the payload list it was given and processing a Load frame returns the rotor it was
  given; and whenever \<open>procesar\<close> returns a state at all, from any state, the same holds.
\<close>

theorem procesar_efecto_de_marco:
  "(\<exists>r l. rotaciones RotorDeMapeo_nuevo ns = Inr r \<and> inserciones ListaDeCarga_nueva cs = Inr l
      \<and> (\<exists>r' out'. procesar (TramaMap n) l r out = Some (Inr (l, r', out')))
      \<and> (\<exists>l' out'. procesar (TramaLoad c) l r out = Some (Inr (l', r, out'))))
   \<and> (procesar (TramaMap n) carga rotor out = Some (Inr (carga', rotor', out'))
        \<longrightarrow> carga' = carga)
   \<and> (procesar (TramaLoad c) carga rotor out = Some (Inr (carga', rotor', out'))
        \<longrightarrow> rotor' = rotor)"
proof (intro conjI)
  obtain h where h: "h < 26" and r: "rotaciones RotorDeMapeo_nuevo ns = Inr (rotor_en h)"
    using rotaciones_nuevo by blast
  from procesar_map_alcanzable [OF h] procesar_load_alcanzable [OF h] r inserciones_nueva [of cs]
  show "\<exists>r l. rotaciones RotorDeMapeo_nuevo ns = Inr r \<and> inserciones ListaDeCarga_nueva cs = Inr l
      \<and> (\<exists>r' out'. procesar (TramaMap n) l r out = Some (Inr (l, r', out')))
      \<and> (\<exists>l' out'. procesar (TramaLoad c) l r out = Some (Inr (l', r, out')))"
    by metis
next
  show "procesar (TramaMap n) carga rotor out = Some (Inr (carga', rotor', out'))
        \<longrightarrow> carga' = carga"
    by (simp only: procesar.simps Let_def split: sum.splits option.splits)
      (auto simp only: option.inject sum.inject prod.inject sum.simps option.simps simp_thms)
next
  show "procesar (TramaLoad c) carga rotor out = Some (Inr (carga', rotor', out'))
        \<longrightarrow> rotor' = rotor"
    by (simp only: procesar.simps Let_def split: sum.splits option.splits)
      (auto simp only: option.inject sum.inject prod.inject sum.simps option.simps simp_thms)
qed

theorem procesar_efecto_de_marco_witness:
  "(\<exists>r' out'. procesar (TramaMap 3) ListaDeCarga_nueva RotorDeMapeo_nuevo []
        = Some (Inr (ListaDeCarga_nueva, r', out')))
   \<and> (\<exists>l' out'. procesar (TramaLoad CHR ''Q'') ListaDeCarga_nueva RotorDeMapeo_nuevo []
        = Some (Inr (l', RotorDeMapeo_nuevo, out')))"
  using procesar_efecto_de_marco [of "[]" "[]" 3 "[]" "CHR ''Q''"]
  by (simp del: procesar.simps)




end
